theory Spec2Isabelle
  imports Complex_Main
begin

section \<open>JavaScript values used by plot.js\<close>

text \<open>
  Array reads in JavaScript never fail: an index outside the array yields
  \<open>undefined\<close>. The model reads through \<open>jsIndex\<close>, where \<open>None\<close> stands for
  \<open>undefined\<close>. Indices are integers, because the source computes
  \<open>a.length - 1\<close>, which is \<open>-1\<close> on the empty array.
\<close>

definition jsIndex :: "'a list \<Rightarrow> int \<Rightarrow> 'a option" where
  "jsIndex a i = (if 0 \<le> i \<and> i < int (length a) then Some (a ! nat i) else None)"

text \<open>
  \<open>a[mid] <= x\<close>: a relational comparison with \<open>undefined\<close> on the left is false.
\<close>

definition jsLe :: "('a::linorder) option \<Rightarrow> 'a \<Rightarrow> bool" where
  "jsLe v x = (case v of None \<Rightarrow> False | Some u \<Rightarrow> u \<le> x)"

text \<open>
  \<open>Math.round((lo + hi) / 2)\<close> for integers \<open>lo\<close>, \<open>hi\<close>: the quotient is an integer
  or ends in \<open>.5\<close>, and \<open>Math.round\<close> rounds a half towards plus infinity. The
  argument of \<open>mathRoundHalf\<close> is the sum \<open>lo + hi\<close>.
\<close>

definition mathRoundHalf :: "int \<Rightarrow> int" where
  "mathRoundHalf s = (s + 1) div 2"

section \<open>DashGraph.binarySearch\<close>

text \<open>
  The narrowing loop of \<open>DashGraph.binarySearch\<close> (plot.js, lines 1022-1030),
  as a function of the loop variables \<open>lo\<close> and \<open>hi\<close>.
\<close>

function bsLoop :: "('a::linorder) list \<Rightarrow> 'a \<Rightarrow> int \<Rightarrow> int \<Rightarrow> int \<times> int" where
  "bsLoop a x lo hi =
     (if hi - lo > 1
      then (if jsLe (jsIndex a (mathRoundHalf (lo + hi))) x
            then bsLoop a x (mathRoundHalf (lo + hi)) hi
            else bsLoop a x lo (mathRoundHalf (lo + hi)))
      else (lo, hi))"
  by pat_completeness auto
termination
  by (relation "measure (\<lambda>(a, x, lo, hi). nat (hi - lo))")
     (auto simp: mathRoundHalf_def)

declare bsLoop.simps [simp del]

definition binarySearch :: "('a::linorder) list \<Rightarrow> 'a \<Rightarrow> bool \<Rightarrow> int" where
  "binarySearch a x upper =
     (case bsLoop a x 0 (int (length a) - 1) of
        (lo, hi) \<Rightarrow> if upper then hi else lo)"

section \<open>More JavaScript values\<close>

text \<open>
  A numeric variable of the source holds a number, \<open>null\<close> or \<open>undefined\<close>.
  \<open>toNumber\<close> is the conversion the relational operators apply: \<open>null\<close> becomes
  \<open>0\<close> and \<open>undefined\<close> becomes \<open>NaN\<close>, written \<open>None\<close>. A comparison with
  \<open>NaN\<close> on either side is false.
\<close>

datatype jsnum = Num real | Null | Undefined

definition toNumber :: "jsnum \<Rightarrow> real option" where
  "toNumber v = (case v of Num r \<Rightarrow> Some r | Null \<Rightarrow> Some 0 | Undefined \<Rightarrow> None)"

definition jsLess :: "('a::linorder) option \<Rightarrow> 'a option \<Rightarrow> bool" where
  "jsLess u v = (case u of None \<Rightarrow> False
                 | Some a \<Rightarrow> (case v of None \<Rightarrow> False | Some b \<Rightarrow> a < b))"

text \<open>\<open>a < b\<close> and \<open>a > b\<close> on values that may be \<open>null\<close> or \<open>undefined\<close>.\<close>

definition jsLt :: "jsnum \<Rightarrow> jsnum \<Rightarrow> bool" where
  "jsLt a b = jsLess (toNumber a) (toNumber b)"

definition jsGt :: "jsnum \<Rightarrow> jsnum \<Rightarrow> bool" where
  "jsGt a b = jsLess (toNumber b) (toNumber a)"

text \<open>The result of an array read, and a field that holds a number or \<open>null\<close>.\<close>

definition ofRead :: "real option \<Rightarrow> jsnum" where
  "ofRead v = (case v of None \<Rightarrow> Undefined | Some r \<Rightarrow> Num r)"

definition ofNullable :: "real option \<Rightarrow> jsnum" where
  "ofNullable v = (case v of None \<Rightarrow> Null | Some r \<Rightarrow> Num r)"

text \<open>\<open>a[k]\<close> where the key \<open>k\<close> itself may be \<open>undefined\<close>: the read is \<open>undefined\<close>.\<close>

definition jsIndexKey :: "'a list \<Rightarrow> int option \<Rightarrow> 'a option" where
  "jsIndexKey a k = (case k of None \<Rightarrow> None | Some i \<Rightarrow> jsIndex a i)"

datatype js_error = TypeError

section \<open>DashGraph.Data\<close>

text \<open>
  A y entry is a number or an array of numbers (several curves on one x axis);
  the source tests each entry with \<open>DashGraph.isArray\<close>.
\<close>

datatype yval = YNum real | YArr "real list"

text \<open>
  The filter object passed in the options: the boundary indices \<open>index\<close>, the
  \<open>colors\<close>, and the cursor \<open>curFiltInd\<close>, \<open>nextInd\<close> that \<open>resetBounds\<close>,
  \<open>setBounds\<close> and \<open>updateFilter\<close> write. \<open>None\<close> is \<open>undefined\<close>: the cursor
  fields before the first reset, and \<open>nextInd\<close> after a read past the end of
  \<open>index\<close>. In the source the series keeps a reference to the caller's filter
  object; the model keeps the filter's value inside the series, which reads
  the same as long as no other holder of the object writes the cursor.
\<close>

record colorFilter =
  index :: "int list"
  colors :: "string list"
  curFiltInd :: "int option"
  nextInd :: "int option"

record options =
  opt_plotType :: "string option"
  opt_filter :: "colorFilter option"

record data =
  x_vals :: "real list"
  y_vals :: "yval list"
  plotType :: string
  dfilter :: "colorFilter option"
  hasFilter :: bool
  hasColor :: bool
  startInd :: int
  stopInd :: int

text \<open>
  The assignments of the constructor (lines 29-52) for an x array and for
  options that are \<open>undefined\<close> (\<open>None\<close>, replaced by \<open>{}\<close> at line 33) or an
  object: on these arguments no property read fails. There is no check and no
  \<open>throw\<close> statement. A missing or empty \<open>plotType\<close> is falsy and becomes
  \<open>'normal'\<close>. The y argument is stored and never read.
\<close>

definition Data :: "real list \<Rightarrow> yval list \<Rightarrow> options option \<Rightarrow> data" where
  "Data x y opts =
     (let pt = (case opts of None \<Rightarrow> None | Some o1 \<Rightarrow> opt_plotType o1);
          fl = (case opts of None \<Rightarrow> None | Some o1 \<Rightarrow> opt_filter o1)
      in \<lparr> x_vals = x, y_vals = y,
           plotType = (case pt of None \<Rightarrow> ''normal''
                       | Some s \<Rightarrow> if s = [] then ''normal'' else s),
           dfilter = fl,
           hasFilter = (case fl of None \<Rightarrow> False | Some f \<Rightarrow> True),
           hasColor = (case fl of None \<Rightarrow> False | Some f \<Rightarrow> True),
           startInd = 0,
           stopInd = int (length x) - 1 \<rparr>)"

text \<open>
  An argument that the caller may leave out or pass as \<open>null\<close>.
\<close>

datatype 'a jsref = RefUndefined | RefNull | Ref 'a

text \<open>
  The constructor call \<open>new DashGraph.Data(x, y, options)\<close> (lines 27-53) with
  its failures. Line 33 replaces only \<open>options === undefined\<close>, so
  \<open>options === null\<close> reaches \<open>options.plotType\<close> at line 36, which throws a
  \<open>TypeError\<close>. Line 52 reads \<open>this.x.length\<close>, which throws a \<open>TypeError\<close> when
  \<open>x\<close> is \<open>undefined\<close> or \<open>null\<close>. Nothing else in the constructor can fail.
\<close>

definition DashGraph_Data ::
  "real list jsref \<Rightarrow> yval list \<Rightarrow> options jsref \<Rightarrow> js_error + data" where
  "DashGraph_Data x y opts =
     (case opts of
        RefNull \<Rightarrow> Inl TypeError
      | RefUndefined \<Rightarrow>
          (case x of
             Ref xs \<Rightarrow> Inr (Data xs y None)
           | RefUndefined \<Rightarrow> Inl TypeError
           | RefNull \<Rightarrow> Inl TypeError)
      | Ref o1 \<Rightarrow>
          (case x of
             Ref xs \<Rightarrow> Inr (Data xs y (Some o1))
           | RefUndefined \<Rightarrow> Inl TypeError
           | RefNull \<Rightarrow> Inl TypeError))"

text \<open>\<open>resetBounds\<close> (lines 58-73).\<close>

definition resetBounds :: "data \<Rightarrow> data" where
  "resetBounds d =
     (let d1 = d\<lparr> startInd := 0, stopInd := int (length (x_vals d)) - 1 \<rparr>
      in case dfilter d of
           None \<Rightarrow> d1
         | Some f \<Rightarrow>
             d1\<lparr> dfilter := Some (f\<lparr> curFiltInd := Some 0,
                                      nextInd := (if 0 = int (length (index f)) - 1
                                                  then Some (- 1)
                                                  else jsIndex (index f) (0 + 1)) \<rparr>) \<rparr>)"

text \<open>
  \<open>setBounds\<close> (lines 81-96). The first search is called without the third
  argument, which is falsy.
\<close>

definition setBounds :: "real \<Rightarrow> real \<Rightarrow> data \<Rightarrow> data" where
  "setBounds startTime stopTime d =
     (let s = binarySearch (x_vals d) startTime False;
          e = binarySearch (x_vals d) stopTime True;
          d1 = d\<lparr> startInd := s, stopInd := e \<rparr>
      in case dfilter d of
           None \<Rightarrow> d1
         | Some f \<Rightarrow>
             if jsLess (jsIndex (index f) (int (length (index f)) - 1)) (Some s)
             then d1\<lparr> dfilter := Some (f\<lparr> curFiltInd := Some (int (length (index f)) - 1),
                                           nextInd := Some (- 1) \<rparr>) \<rparr>
             else d1\<lparr> dfilter := Some (f\<lparr> curFiltInd := Some (binarySearch (index f) s False),
                                           nextInd := jsIndex (index f)
                                                        (binarySearch (index f) s False + 1) \<rparr>) \<rparr>)"

text \<open>
  \<open>updateFilter\<close> (lines 146-160). \<open>ind === nextInd\<close> is strict equality, false
  when \<open>nextInd\<close> is \<open>undefined\<close>. Adding one to an \<open>undefined\<close> cursor gives
  \<open>NaN\<close>, which compares false and reads \<open>undefined\<close>, as \<open>None\<close> does here.
  Reading \<open>this.filter.nextInd\<close> on a series without a filter throws.
\<close>

definition updateFilter :: "int \<Rightarrow> data \<Rightarrow> js_error + (bool \<times> data)" where
  "updateFilter ind d =
     (case dfilter d of
        None \<Rightarrow> Inl TypeError
      | Some f \<Rightarrow>
          if Some ind = nextInd f
          then (let c = map_option (\<lambda>k. k + 1) (curFiltInd f)
                in Inr (True,
                     d\<lparr> dfilter := Some (f\<lparr> curFiltInd := c,
                            nextInd := (if jsLess c (Some (int (length (index f))))
                                        then jsIndexKey (index f) (map_option (\<lambda>k. k + 1) c)
                                        else Some (- 1)) \<rparr>) \<rparr>))
          else Inr (False, d))"

text \<open>
  A run of \<open>updateFilter\<close> calls, one per index in order, as the point loop of
  \<open>renderData\<close> makes them (line 658); the results are collected in order.
\<close>

fun updateFilterAll :: "int list \<Rightarrow> data \<Rightarrow> js_error + (bool list \<times> data)" where
  "updateFilterAll [] d = Inr ([], d)"
| "updateFilterAll (i # inds) d =
     (case updateFilter i d of
        Inl e \<Rightarrow> Inl e
      | Inr (b, d1) \<Rightarrow>
          (case updateFilterAll inds d1 of
             Inl e \<Rightarrow> Inl e
           | Inr (bs, d2) \<Rightarrow> Inr (b # bs, d2)))"

text \<open>\<open>Data.getColor\<close> (lines 166-173): a color, \<open>null\<close> without a filter, or
  \<open>undefined\<close> when the cursor is not an index of \<open>colors\<close>.\<close>

datatype color_result = Color string | NullColor | UndefinedColor

definition getColor :: "data \<Rightarrow> color_result" where
  "getColor d =
     (case dfilter d of
        None \<Rightarrow> NullColor
      | Some f \<Rightarrow>
          (case jsIndexKey (colors f) (curFiltInd f) of
             None \<Rightarrow> UndefinedColor
           | Some c \<Rightarrow> Color c))"

section \<open>DashGraph.Plot\<close>

text \<open>
  The fields of a plot that the modelled methods read or write. The four
  \<open>zoom\<close> bounds are a number or \<open>null\<close> (\<open>None\<close>): \<open>null\<close> means the axis is fitted
  to the data. \<open>xZoomStart\<close> and \<open>yZoomStart\<close> are assigned by \<open>onmousedown\<close>
  before \<open>zooming\<close> becomes true and are read only while it is true; the scale
  and bias are assigned by \<open>preprocess\<close> on every render pass, before any
  coordinate is mapped. Arithmetic on them is exact real arithmetic; the
  source computes in double precision.
\<close>

record plot =
  width :: real
  height :: real
  heightBuffer :: real
  minTickPixels :: real
  plot_data :: "data list"
  zoom_xMin :: "real option"
  zoom_xMax :: "real option"
  zoom_yMin :: "real option"
  zoom_yMax :: "real option"
  plotWidth :: real
  plotXStart :: real
  plotHeight :: real
  plotYStart :: real
  zooming :: bool
  xZooming :: bool
  yZooming :: bool
  rectZooming :: bool
  xZoomStart :: real
  yZoomStart :: real
  xScale :: real
  xBias :: real
  yScale :: real
  yBias :: real

text \<open>\<open>addData\<close> (lines 306-308) and \<open>clearZoom\<close> (lines 744-749).\<close>

definition addData :: "data \<Rightarrow> plot \<Rightarrow> plot" where
  "addData d p = p\<lparr> plot_data := plot_data p @ [d] \<rparr>"

definition clearZoom :: "plot \<Rightarrow> plot" where
  "clearZoom p = p\<lparr> zoom_xMin := None, zoom_xMax := None,
                     zoom_yMin := None, zoom_yMax := None \<rparr>"

subsection \<open>The x range of a render pass\<close>

text \<open>
  A plot object never has a \<open>startInd\<close> or a \<open>stopInd\<close> property: neither the
  constructor (lines 178-219) nor \<open>initialize\<close> (lines 225-293) nor any method
  assigns one. \<open>this.startInd\<close> and \<open>this.stopInd\<close> inside a method of the plot
  are therefore \<open>undefined\<close>.
\<close>

definition this_startInd :: "plot \<Rightarrow> int option" where
  "this_startInd p = None"

definition this_stopInd :: "plot \<Rightarrow> int option" where
  "this_stopInd p = None"

text \<open>
  The loop over the remaining series in the fitted branch of \<open>preprocess\<close>
  (lines 368-377), with the running \<open>xMin\<close> and \<open>xMax\<close>. It returns them with the
  series, whose bounds it has reset.
\<close>

fun xRangeLoop :: "plot \<Rightarrow> jsnum \<Rightarrow> jsnum \<Rightarrow> data list \<Rightarrow> jsnum \<times> jsnum \<times> data list" where
  "xRangeLoop p xMin xMax [] = (xMin, xMax, [])"
| "xRangeLoop p xMin xMax (d # ds) =
     (let d1 = resetBounds d;
          xMin1 = (if jsGt xMin (ofRead (jsIndex (x_vals d1) (startInd d1)))
                   then ofRead (jsIndexKey (x_vals d1) (this_startInd p))
                   else xMin);
          xMax1 = (if jsLt xMax (ofRead (jsIndex (x_vals d1) (stopInd d1)))
                   then ofRead (jsIndexKey (x_vals d1) (this_stopInd p))
                   else xMax)
      in case xRangeLoop p xMin1 xMax1 ds of
           (a, b, ds1) \<Rightarrow> (a, b, d1 # ds1))"

text \<open>
  The first part of \<open>preprocess\<close> (lines 358-386): the x range \<open>xMin\<close>, \<open>xMax\<close> of
  the pass and the series with their windows set. With no series the fitted
  branch calls a method of \<open>undefined\<close>, which throws. In the pinned branch the
  bounds go to \<open>setBounds\<close>, whose comparisons read \<open>null\<close> as \<open>0\<close>.
\<close>

definition preprocess_xRange :: "plot \<Rightarrow> js_error + (jsnum \<times> jsnum \<times> data list)" where
  "preprocess_xRange p =
     (case zoom_xMin p of
        None \<Rightarrow>
          (case plot_data p of
             [] \<Rightarrow> Inl TypeError
           | d # ds \<Rightarrow>
               (let d1 = resetBounds d
                in case xRangeLoop p (ofRead (jsIndex (x_vals d1) (startInd d1)))
                                    (ofRead (jsIndex (x_vals d1) (stopInd d1))) ds of
                     (a, b, ds1) \<Rightarrow> Inr (a, b, d1 # ds1)))
      | Some lo \<Rightarrow>
          Inr (Num lo, ofNullable (zoom_xMax p),
               map (setBounds lo (case zoom_xMax p of None \<Rightarrow> 0 | Some hi \<Rightarrow> hi))
                   (plot_data p)))"

subsection \<open>Drawing the series\<close>

text \<open>
  What \<open>renderData\<close> (lines 569-739) does with one series: it leaves it out
  with \<open>continue\<close> at the bounds check of lines 616-619, before any call on the
  canvas, or goes on to the curve loop (\<open>while (lenData !== 0)\<close>), which begins
  and strokes one path per curve. \<open>Drawn n\<close> records that the series reached
  the curve loop with \<open>lenData = n\<close>; the canvas arithmetic inside the loop is
  not part of the model. Nor is a failure inside the loop: on a series whose
  first y entry is a tuple and whose y array is shorter than its window, the
  loop reads an element of \<open>undefined\<close> and the \<open>TypeError\<close> ends the whole
  pass, while the model still lists that series and the later ones. On series
  whose y array has an entry of one shape for every x value the loop cannot
  fail.
\<close>

datatype series_pass = Skipped | Drawn nat

definition lenData :: "data \<Rightarrow> nat" where
  "lenData d = (case jsIndex (y_vals d) (startInd d) of
                  Some (YArr vs) \<Rightarrow> length vs
                | Some (YNum v) \<Rightarrow> 1
                | None \<Rightarrow> 1)"

text \<open>
  The bounds check: \<open>data.x[0] > this.zoom.xMax || data.x[data.x.length-1] <
  this.zoom.xMin\<close>.
\<close>

definition outsideZoom :: "plot \<Rightarrow> data \<Rightarrow> bool" where
  "outsideZoom p d =
     (jsGt (ofRead (jsIndex (x_vals d) 0)) (ofNullable (zoom_xMax p))
      \<or> jsLt (ofRead (jsIndex (x_vals d) (int (length (x_vals d)) - 1)))
              (ofNullable (zoom_xMin p)))"

definition renderData :: "plot \<Rightarrow> series_pass list" where
  "renderData p =
     map (\<lambda>d. if outsideZoom p d then Skipped else Drawn (lenData d)) (plot_data p)"

subsection \<open>Pixel and value coordinates\<close>

text \<open>Lines 945-971.\<close>

definition getXCanvasPos :: "plot \<Rightarrow> real \<Rightarrow> real" where
  "getXCanvasPos p v = v * xScale p + xBias p"

definition getXPixelPos :: "plot \<Rightarrow> real \<Rightarrow> real" where
  "getXPixelPos p v = (v - xBias p) / xScale p"

definition getYCanvasPos :: "plot \<Rightarrow> real \<Rightarrow> real" where
  "getYCanvasPos p v = v * yScale p + yBias p"

definition getYPixelPos :: "plot \<Rightarrow> real \<Rightarrow> real" where
  "getYPixelPos p v = (v - yBias p) / yScale p"

subsection \<open>Ticks\<close>

text \<open>
  The loop over the multiples in \<open>getTicks\<close> (lines 988-995). It leaves the
  loop at the first multiple whose spacing exceeds \<open>minTickPixels\<close>; the
  variables \<open>scale\<close>, \<open>low\<close> and \<open>nTicks\<close> keep the values of the last multiple
  tried, which the third argument carries.
\<close>

fun multLoop ::
  "real \<Rightarrow> real \<Rightarrow> real \<Rightarrow> real \<Rightarrow> real \<Rightarrow> real list \<Rightarrow> real \<times> real \<times> real
     \<Rightarrow> real \<times> real \<times> real" where
  "multLoop mtp baseScale minVal maxVal pixels [] cur = cur"
| "multLoop mtp baseScale minVal maxVal pixels (m # ms) cur =
     (let scale = baseScale * m;
          low = of_int \<lfloor>minVal / scale\<rfloor> * scale;
          high = of_int \<lceil>maxVal / scale\<rceil> * scale;
          nTicks = \<bar>high - low\<bar> / scale;
          spacing = pixels / nTicks
      in if spacing > mtp then (scale, low, nTicks)
         else multLoop mtp baseScale minVal maxVal pixels ms (scale, low, nTicks))"

text \<open>
  \<open>getTicks\<close> (lines 976-1006), over the real numbers. When \<open>maxVal - minVal\<close>
  is not positive the logarithm is \<open>-Infinity\<close> or \<open>NaN\<close>, every later value is
  \<open>NaN\<close>, no comparison succeeds and no tick is made. Otherwise the scale is
  positive and \<open>nTicks\<close> is at least one, so no division is by zero. The tick
  loop runs for \<open>i = 0, 1, ...\<close> while \<open>i < nTicks\<close>. The source computes in
  double precision, where \<open>Math.log(r) / Math.LN10\<close> can fall just below an
  integer that the real quotient reaches: for \<open>r = 1000\<close> its floor is 2 in
  doubles and 3 here, and the step chosen differs. For \<open>r = 100\<close> and \<open>r = 97\<close>
  the two agree.
\<close>

definition getTicks :: "plot \<Rightarrow> real \<Rightarrow> real \<Rightarrow> real \<Rightarrow> real list" where
  "getTicks p minVal maxVal pixels =
     (if maxVal - minVal \<le> 0 then []
      else
        (let basePower = \<lfloor>ln (maxVal - minVal) / ln 10\<rfloor>;
             baseScale = 10 powi basePower
         in case multLoop (minTickPixels p) baseScale minVal maxVal pixels
                   [0.5, 1, 2, 5] (0, 0, 0) of
              (scale, low, nTicks) \<Rightarrow>
                filter (\<lambda>val. val \<ge> minVal \<and> val \<le> maxVal)
                  (map (\<lambda>i. low + real i * scale) [0 ..< nat \<lceil>nTicks\<rceil>])))"

subsection \<open>The zoom gesture\<close>

text \<open>
  Calls on the overlay canvas. The pointer handlers take the pointer position
  already translated by \<open>eventToCanvasX\<close> and \<open>eventToCanvasY\<close>.
\<close>

datatype overlay_op =
    ClearRect real real real real
  | FillStyle string
  | FillRect real real real real

definition clearOverlay :: "plot \<Rightarrow> overlay_op list" where
  "clearOverlay p = [ClearRect 0 0 (width p) (height p)]"

definition drawXZoom :: "plot \<Rightarrow> real \<Rightarrow> overlay_op list" where
  "drawXZoom p xPos =
     clearOverlay p @
     [FillStyle ''rgba(128,128,128,0.33)'',
      FillRect (xZoomStart p) (plotYStart p) (xPos - xZoomStart p) (plotHeight p)]"

definition drawYZoom :: "plot \<Rightarrow> real \<Rightarrow> overlay_op list" where
  "drawYZoom p yPos =
     clearOverlay p @
     [FillStyle ''rgba(128,128,128,0.33)'',
      FillRect (plotXStart p) (yZoomStart p) (plotXStart p + plotWidth p)
               (yPos - yZoomStart p)]"

text \<open>\<open>onmousedown\<close> (lines 753-766), \<open>onmousemove\<close> (lines 807-835) and
  \<open>onmouseout\<close> (lines 850-856).\<close>

definition onmousedown :: "real \<Rightarrow> real \<Rightarrow> plot \<Rightarrow> plot" where
  "onmousedown ex ey p = p\<lparr> xZoomStart := ex, yZoomStart := ey, zooming := True \<rparr>"

definition onmousemove :: "real \<Rightarrow> real \<Rightarrow> plot \<Rightarrow> plot \<times> overlay_op list" where
  "onmousemove ex ey p =
     (if zooming p
      then (let xDist = \<bar>ex - xZoomStart p\<bar>;
                yDist = \<bar>ey - yZoomStart p\<bar>
            in if xDist > yDist \<and> xDist > 1
               then (p\<lparr> xZooming := True, yZooming := False \<rparr>,
                     drawXZoom p (if ex < plotXStart p then plotXStart p else ex))
               else if yDist > xDist \<and> yDist > 1
               then (p\<lparr> xZooming := False, yZooming := True \<rparr>,
                     drawYZoom p (if ey > plotHeight p then plotHeight p else ey))
               else (p, []))
      else (p, []))"

definition onmouseout :: "plot \<Rightarrow> plot \<times> overlay_op list" where
  "onmouseout p =
     (p\<lparr> zooming := False, xZooming := False, yZooming := False, rectZooming := False \<rparr>,
      clearOverlay p)"

section \<open>Concrete inputs\<close>

text \<open>
  A plot with the sizes the constructor uses when no option is given: 400 by
  300 pixels with labels of 50 pixels, hence a plot area of 350 by 250 pixels
  that starts at x = 50, a height buffer of 20 and at least 40 pixels between
  ticks. It holds no series, no pinned zoom and no gesture, and the scale of
  the x range from 0 to 350 and the y range from 0 to 250.
\<close>

abbreviation examplePlot :: plot where
  "examplePlot \<equiv>
     \<lparr> width = 400, height = 300, heightBuffer = 20, minTickPixels = 40,
       plot_data = [],
       zoom_xMin = None, zoom_xMax = None, zoom_yMin = None, zoom_yMax = None,
       plotWidth = 350, plotXStart = 50, plotHeight = 250, plotYStart = 0,
       zooming = False, xZooming = False, yZooming = False, rectZooming = False,
       xZoomStart = 0, yZoomStart = 0,
       xScale = 1, xBias = 50, yScale = - 1, yBias = 250 \<rparr>"

text \<open>
  A series of five points with a color filter of three segments, which begin
  at the indices 0, 2 and 4.
\<close>

abbreviation exampleFilter :: colorFilter where
  "exampleFilter \<equiv>
     \<lparr> index = [0, 2, 4], colors = [''red'', ''green'', ''blue''],
       curFiltInd = None, nextInd = None \<rparr>"

abbreviation exampleSeries :: data where
  "exampleSeries \<equiv>
     Data [0, 1, 2, 3, 4] [YNum 0, YNum 10, YNum (- 10), YNum 10, YNum 0]
       (Some \<lparr> opt_plotType = None, opt_filter = Some exampleFilter \<rparr>)"

section \<open>Properties of the binary search\<close>

lemma bsLoop_bracket:
  "lo \<le> hi \<Longrightarrow> bsLoop a x lo hi = (l, h) \<Longrightarrow>
     lo \<le> l \<and> l \<le> h \<and> h \<le> hi \<and> (lo < hi \<longrightarrow> h = l + 1)"
proof (induction a x lo hi rule: bsLoop.induct)
  case (1 a x lo hi)
  show ?case
  proof (cases "hi - lo > 1")
    case False
    with "1.prems" show ?thesis
      by (auto simp: bsLoop.simps [of a x lo hi])
  next
    case wide: True
    let ?mid = "mathRoundHalf (lo + hi)"
    have mid: "lo < ?mid" "?mid < hi"
      using wide by (auto simp: mathRoundHalf_def)
    show ?thesis
    proof (cases "jsLe (jsIndex a ?mid) x")
      case True
      with wide "1.prems" have "bsLoop a x ?mid hi = (l, h)"
        by (simp add: bsLoop.simps [of a x lo hi])
      with "1.IH"(1) [OF wide True] mid show ?thesis by auto
    next
      case False
      with wide "1.prems" have "bsLoop a x lo ?mid = (l, h)"
        by (simp add: bsLoop.simps [of a x lo hi])
      with "1.IH"(2) [OF wide False] mid show ?thesis by auto
    qed
  qed
qed

text \<open>
  C9. For every non-empty array and every target, the lower result of
  \<open>binarySearch\<close> is at most the upper result, and both are valid indices of the
  array, between \<open>0\<close> and \<open>length - 1\<close>. The order of the elements plays no part:
  the bounds hold for every non-empty array, strictly increasing or not.
\<close>

theorem binarySearch_lower_le_upper:
  fixes A :: "('a::linorder) list"
  assumes "A \<noteq> []"
  shows "0 \<le> binarySearch A t False
       \<and> binarySearch A t False \<le> binarySearch A t True
       \<and> binarySearch A t True \<le> int (length A) - 1"
proof -
  obtain l h where lh: "bsLoop A t 0 (int (length A) - 1) = (l, h)"
    by (cases "bsLoop A t 0 (int (length A) - 1)")
  from assms have "0 \<le> int (length A) - 1"
    by (cases A) auto
  from bsLoop_bracket [OF this lh] lh show ?thesis
    by (simp add: binarySearch_def)
qed

theorem binarySearch_lower_le_upper_witness:
  "[2, 3, 5, 7] \<noteq> ([] :: int list)
   \<and> 0 \<le> binarySearch [2, 3, 5, 7 :: int] 4 False
   \<and> binarySearch [2, 3, 5, 7 :: int] 4 False \<le> binarySearch [2, 3, 5, 7 :: int] 4 True
   \<and> binarySearch [2, 3, 5, 7 :: int] 4 True \<le> int (length [2, 3, 5, 7 :: int]) - 1"
  using binarySearch_lower_le_upper [of "[2, 3, 5, 7 :: int]" 4] by simp

lemma bsLoop_invariant:
  "0 \<le> lo \<Longrightarrow> lo < hi \<Longrightarrow> hi < int (length a) \<Longrightarrow> a ! nat lo \<le> x \<Longrightarrow>
   bsLoop a x lo hi = (l, h) \<Longrightarrow>
     a ! nat l \<le> x \<and> (h = hi \<or> x < a ! nat h)"
proof (induction a x lo hi rule: bsLoop.induct)
  case (1 a x lo hi)
  show ?case
  proof (cases "hi - lo > 1")
    case False
    with "1.prems" show ?thesis
      by (auto simp: bsLoop.simps [of a x lo hi])
  next
    case wide: True
    let ?mid = "mathRoundHalf (lo + hi)"
    have mid: "lo < ?mid" "?mid < hi"
      using wide by (auto simp: mathRoundHalf_def)
    with "1.prems" have inb: "jsIndex a ?mid = Some (a ! nat ?mid)"
      by (simp add: jsIndex_def)
    show ?thesis
    proof (cases "jsLe (jsIndex a ?mid) x")
      case True
      with wide "1.prems" have run: "bsLoop a x ?mid hi = (l, h)"
        by (simp add: bsLoop.simps [of a x lo hi])
      from True inb have "a ! nat ?mid \<le> x"
        by (simp add: jsLe_def)
      with "1.IH"(1) [OF wide True _ _ _ _ run] mid "1.prems" show ?thesis by simp
    next
      case False
      with wide "1.prems" have run: "bsLoop a x lo ?mid = (l, h)"
        by (simp add: bsLoop.simps [of a x lo hi])
      from False inb have big: "x < a ! nat ?mid"
        by (simp add: jsLe_def)
      from "1.IH"(2) [OF wide False _ _ _ _ run] mid "1.prems"
      have "a ! nat l \<le> x \<and> (h = ?mid \<or> x < a ! nat h)" by simp
      with big show ?thesis by auto
    qed
  qed
qed

lemma binarySearch_index_range:
  fixes A :: "('a::linorder) list"
  assumes "A \<noteq> []"
  shows "0 \<le> binarySearch A t False" "binarySearch A t False \<le> int (length A) - 1"
proof -
  obtain l h where lh: "bsLoop A t 0 (int (length A) - 1) = (l, h)"
    by (cases "bsLoop A t 0 (int (length A) - 1)")
  from assms have "0 \<le> int (length A) - 1"
    by (cases A) auto
  from bsLoop_bracket [OF this lh] lh
  show "0 \<le> binarySearch A t False" "binarySearch A t False \<le> int (length A) - 1"
    by (simp_all add: binarySearch_def)
qed

text \<open>Unfolding a search, a series or a filter step on concrete data.\<close>

lemmas search_eval =
  binarySearch_def bsLoop.simps mathRoundHalf_def jsIndex_def jsLe_def

lemmas series_eval =
  search_eval jsLess_def jsIndexKey_def Let_def Data_def resetBounds_def setBounds_def
  updateFilter_def getColor_def

text \<open>
  The search never looks at the last element: on \<open>[0, 1, 2]\<close> with target \<open>2\<close>
  the lower result is index 1, although the element at index 2 is not above
  the target.
\<close>

theorem binarySearch_last_element_counterexample:
  "sorted_wrt (<) [0, 1, 2 :: real] \<and> 2 \<le> length [0, 1, 2 :: real]
   \<and> [0, 1, 2 :: real] ! 0 \<le> 2
   \<and> [0, 1, 2 :: real] ! 2 \<le> 2
   \<and> binarySearch [0, 1, 2 :: real] 2 False = 1"
  by (simp add: search_eval)

text \<open>
  C1, as the code has it. For a strictly increasing array \<open>A\<close> of at least two
  elements and a target \<open>t\<close> with \<open>A[0] \<le> t\<close>: when \<open>t\<close> is below the last
  element, the lower result is the largest index whose element is at most \<open>t\<close>
  and the upper result is the index after it; when \<open>t\<close> is the last element or
  above it, the lower result is \<open>length - 2\<close> and the upper result is
  \<open>length - 1\<close>.
\<close>

theorem binarySearch_bracket:
  fixes A :: "('a::linorder) list"
  assumes inc: "sorted_wrt (<) A" and len: "2 \<le> length A" and lo: "A ! 0 \<le> t"
  shows "(t < last A \<longrightarrow>
            0 \<le> binarySearch A t False
          \<and> binarySearch A t False < int (length A) - 1
          \<and> A ! nat (binarySearch A t False) \<le> t
          \<and> (\<forall>j. nat (binarySearch A t False) < j \<and> j < length A \<longrightarrow> t < A ! j)
          \<and> binarySearch A t True = binarySearch A t False + 1)
       \<and> (last A \<le> t \<longrightarrow>
            binarySearch A t False = int (length A) - 2
          \<and> binarySearch A t True = int (length A) - 1)"
proof -
  obtain l h where lh: "bsLoop A t 0 (int (length A) - 1) = (l, h)"
    by (cases "bsLoop A t 0 (int (length A) - 1)")
  from len have wide: "(0::int) < int (length A) - 1" by simp
  then have le: "(0::int) \<le> int (length A) - 1" by linarith
  from bsLoop_bracket [OF le lh] wide
  have br: "0 \<le> l" "h \<le> int (length A) - 1" "h = l + 1" by auto
  from bsLoop_invariant [OF _ wide _ _ lh] lo
  have inv: "A ! nat l \<le> t" "h = int (length A) - 1 \<or> t < A ! nat h" by auto
  have res: "binarySearch A t False = l" "binarySearch A t True = h"
    using lh by (simp_all add: binarySearch_def)
  have lastA: "last A = A ! (length A - 1)"
    using len by (cases A) (simp_all add: last_conv_nth)
  have mono: "A ! i < A ! j" if "i < j" "j < length A" for i j
    using inc that by (simp add: sorted_wrt_iff_nth_less)
  have hnat: "nat h = Suc (nat l)" using br by simp
  have below: "t < A ! nat h" if "t < last A"
  proof -
    from inv(2) show ?thesis
    proof
      assume "h = int (length A) - 1"
      then have "nat h = length A - 1" by simp
      with that lastA show ?thesis by simp
    qed
  qed
  have above: "t < A ! j" if "t < last A" "nat l < j" "j < length A" for j
  proof (cases "j = nat h")
    case True
    with below [OF that(1)] show ?thesis by simp
  next
    case False
    with that hnat have "nat h < j" by simp
    from mono [OF this that(3)] below [OF that(1)] show ?thesis by simp
  qed
  have atEnd: "h = int (length A) - 1" if "last A \<le> t"
  proof (rule ccontr)
    assume ne: "h \<noteq> int (length A) - 1"
    with inv(2) have lt: "t < A ! nat h" by simp
    from ne br have "nat h < length A - 1" by simp
    from mono [OF this] len have "A ! nat h < last A" by (simp add: lastA)
    with lt that show False by simp
  qed
  show ?thesis
    using res br inv(1) above atEnd by auto
qed

theorem binarySearch_bracket_witness:
  "sorted_wrt (<) [2, 3, 5, 7 :: real] \<and> 2 \<le> length [2, 3, 5, 7 :: real]
   \<and> [2, 3, 5, 7 :: real] ! 0 \<le> 4 \<and> 4 < last [2, 3, 5, 7 :: real]
   \<and> binarySearch [2, 3, 5, 7 :: real] 4 False = 1
   \<and> [2, 3, 5, 7 :: real] ! nat (binarySearch [2, 3, 5, 7 :: real] 4 False) \<le> 4
   \<and> binarySearch [2, 3, 5, 7 :: real] 4 True = binarySearch [2, 3, 5, 7 :: real] 4 False + 1"
  using binarySearch_bracket [of "[2, 3, 5, 7 :: real]" 4]
  by (simp add: search_eval)

section \<open>Properties of the series constructor\<close>

text \<open>
  Three malformed series: a y array shorter than the x array, x values that
  decrease, and y tuples of two widths. The constructor call returns each of
  them, without an error, as a series whose window is the whole x array.
\<close>

theorem Data_accepts_malformed_counterexample:
  "length [0, 1, 2 :: real] \<noteq> length [YNum 5]
   \<and> DashGraph_Data (Ref [0, 1, 2]) [YNum 5] RefUndefined =
       Inr \<lparr> x_vals = [0, 1, 2], y_vals = [YNum 5], plotType = ''normal'',
             dfilter = None, hasFilter = False, hasColor = False,
             startInd = 0, stopInd = 2 \<rparr>
   \<and> \<not> sorted_wrt (<) [2, 1 :: real]
   \<and> DashGraph_Data (Ref [2, 1]) [YNum 0, YNum 0] RefUndefined =
       Inr \<lparr> x_vals = [2, 1], y_vals = [YNum 0, YNum 0], plotType = ''normal'',
             dfilter = None, hasFilter = False, hasColor = False,
             startInd = 0, stopInd = 1 \<rparr>
   \<and> length [1, 2 :: real] \<noteq> length [3 :: real]
   \<and> DashGraph_Data (Ref [0, 1]) [YArr [1, 2], YArr [3]] RefUndefined =
       Inr \<lparr> x_vals = [0, 1], y_vals = [YArr [1, 2], YArr [3]], plotType = ''normal'',
             dfilter = None, hasFilter = False, hasColor = False,
             startInd = 0, stopInd = 1 \<rparr>"
  by (simp add: DashGraph_Data_def Data_def)

text \<open>
  C6, as the code has it. The constructor checks nothing about the data. For
  every x array and every y array, also with lengths that differ, x values out
  of order or tuples of different widths, and for options that are left out
  or are an object, the call returns a series that holds the two arrays as
  given, has a filter exactly when the options have one, and has the whole x
  array as its window. The call fails, with a \<open>TypeError\<close>, exactly when
  \<open>options\<close> is \<open>null\<close> or \<open>x\<close> is \<open>undefined\<close> or \<open>null\<close>, whatever the data.
\<close>

theorem DashGraph_Data_checks_nothing:
  "map_sum id (\<lambda>d. (x_vals d, y_vals d, dfilter d, hasFilter d, startInd d, stopInd d))
     (DashGraph_Data (Ref xs) y RefUndefined)
     = Inr (xs, y, None, False, 0, int (length xs) - 1)
   \<and> map_sum id (\<lambda>d. (x_vals d, y_vals d, dfilter d, hasFilter d, startInd d, stopInd d))
       (DashGraph_Data (Ref xs) y (Ref o1))
     = Inr (xs, y, opt_filter o1, opt_filter o1 \<noteq> None, 0, int (length xs) - 1)
   \<and> DashGraph_Data x y RefNull = Inl TypeError
   \<and> DashGraph_Data RefUndefined y opts = Inl TypeError
   \<and> DashGraph_Data RefNull y opts = Inl TypeError"
  by (simp add: DashGraph_Data_def Data_def Let_def split: option.split jsref.split)

section \<open>Properties of the color filter\<close>

text \<open>
  With the window from \<open>setBounds(3, 4)\<close> on the five-point series the window
  starts at index 3 and ends at index 4, and the one remaining call
  \<open>updateFilter(4)\<close> reports a change of color.
\<close>

theorem window_from_3_counterexample:
  "startInd (setBounds 3 4 exampleSeries) = 3
   \<and> stopInd (setBounds 3 4 exampleSeries) = 4
   \<and> map_sum id fst
       (updateFilterAll [startInd (setBounds 3 4 exampleSeries) + 1 ..
                         stopInd (setBounds 3 4 exampleSeries)]
          (setBounds 3 4 exampleSeries)) = Inr [True]"
  by (simp add: series_eval)

text \<open>
  C4, as the code has it. For the five-point series with filter boundaries
  \<open>[0, 2, 4]\<close> and three colors: after \<open>resetBounds\<close>, \<open>updateFilter\<close> on the
  indices 1, 2, 3, 4 in order returns true exactly twice, at 2 and at 4. After
  \<open>setBounds(3, 4)\<close> the window runs from index 3 to index 4 and the cursor is
  on segment 1, the segment of index 3, with the next boundary at 4; the
  boundary at 2 is not reported again, and \<open>updateFilter\<close> on the remaining
  window index 4 returns true once, for the boundary at 4.
\<close>

theorem filter_transitions:
  "map_sum id fst (updateFilterAll [1, 2, 3, 4] (resetBounds exampleSeries))
     = Inr [False, True, False, True]
   \<and> startInd (setBounds 3 4 exampleSeries) = 3
   \<and> stopInd (setBounds 3 4 exampleSeries) = 4
   \<and> dfilter (setBounds 3 4 exampleSeries)
       = Some (exampleFilter\<lparr> curFiltInd := Some 1, nextInd := Some 4 \<rparr>)
   \<and> map_sum id fst (updateFilterAll [4] (setBounds 3 4 exampleSeries)) = Inr [True]"
  by (simp add: series_eval)

text \<open>
  The cursor invariant used below: the cursor is an index of the boundaries,
  and a next boundary that a non-negative index can equal exists only before
  the last segment.
\<close>

lemma resetBounds_cursor:
  assumes "dfilter d = Some f" "index f \<noteq> []"
  shows "\<exists>g c. dfilter (resetBounds d) = Some g \<and> index g = index f \<and> colors g = colors f
           \<and> curFiltInd g = Some c \<and> 0 \<le> c \<and> c \<le> int (length (index f)) - 1
           \<and> (\<forall>k. nextInd g = Some k \<and> 0 \<le> k \<longrightarrow> c + 1 < int (length (index f)))"
  using assms
  by (cases "index f") (auto simp: resetBounds_def Let_def jsIndex_def split: if_splits)

lemma setBounds_cursor:
  assumes "dfilter d = Some f" "index f \<noteq> []"
  shows "\<exists>g c. dfilter (setBounds a b d) = Some g \<and> index g = index f \<and> colors g = colors f
           \<and> curFiltInd g = Some c \<and> 0 \<le> c \<and> c \<le> int (length (index f)) - 1
           \<and> (\<forall>k. nextInd g = Some k \<and> 0 \<le> k \<longrightarrow> c + 1 < int (length (index f)))"
proof -
  let ?s = "binarySearch (x_vals d) a False"
  from assms(2) have len: "0 \<le> int (length (index f)) - 1"
    by (cases "index f") auto
  note rng = binarySearch_index_range [OF assms(2), of ?s]
  show ?thesis
  proof (cases "jsLess (jsIndex (index f) (int (length (index f)) - 1)) (Some ?s)")
    case True
    with assms len show ?thesis
      by (simp add: setBounds_def Let_def)
  next
    case False
    with assms rng show ?thesis
      by (auto simp: setBounds_def Let_def jsIndex_def split: if_splits)
  qed
qed

lemma updateFilter_cursor:
  assumes "dfilter d = Some g" "curFiltInd g = Some c" "0 \<le> c" "c \<le> int (length (index g)) - 1"
    and nxt: "\<forall>k. nextInd g = Some k \<and> 0 \<le> k \<longrightarrow> c + 1 < int (length (index g))"
    and "0 \<le> i"
  shows "\<exists>b d1 g1 c1. updateFilter i d = Inr (b, d1) \<and> dfilter d1 = Some g1
           \<and> index g1 = index g \<and> colors g1 = colors g
           \<and> curFiltInd g1 = Some c1 \<and> 0 \<le> c1 \<and> c1 \<le> int (length (index g)) - 1
           \<and> (\<forall>k. nextInd g1 = Some k \<and> 0 \<le> k \<longrightarrow> c1 + 1 < int (length (index g)))"
proof (cases "Some i = nextInd g")
  case False
  with assms show ?thesis
    by (auto simp: updateFilter_def)
next
  case True
  with nxt \<open>0 \<le> i\<close> have "c + 1 < int (length (index g))"
    by metis
  with True assms(1-3) show ?thesis
    by (auto simp: updateFilter_def Let_def jsLess_def jsIndexKey_def jsIndex_def
             split: if_splits)
qed

lemma updateFilterAll_cursor:
  assumes "list_all (\<lambda>i. 0 \<le> i) inds"
    and "dfilter d = Some g" "curFiltInd g = Some c" "0 \<le> c" "c \<le> int (length (index g)) - 1"
    and "\<forall>k. nextInd g = Some k \<and> 0 \<le> k \<longrightarrow> c + 1 < int (length (index g))"
  shows "\<exists>bs d1 g1 c1. updateFilterAll inds d = Inr (bs, d1) \<and> dfilter d1 = Some g1
           \<and> index g1 = index g \<and> colors g1 = colors g
           \<and> curFiltInd g1 = Some c1 \<and> 0 \<le> c1 \<and> c1 \<le> int (length (index g)) - 1
           \<and> (\<forall>k. nextInd g1 = Some k \<and> 0 \<le> k \<longrightarrow> c1 + 1 < int (length (index g)))"
  using assms
proof (induction inds arbitrary: d g c)
  case Nil
  then show ?case by simp
next
  case (Cons i inds)
  from Cons.prems(1) have i: "0 \<le> i" and rest: "list_all (\<lambda>i. 0 \<le> i) inds"
    by simp_all
  from updateFilter_cursor [OF Cons.prems(2-6) i]
  obtain b d1 g1 c1 where step: "updateFilter i d = Inr (b, d1)" "dfilter d1 = Some g1"
      "index g1 = index g" "colors g1 = colors g" "curFiltInd g1 = Some c1" "0 \<le> c1"
      "c1 \<le> int (length (index g)) - 1"
      "\<forall>k. nextInd g1 = Some k \<and> 0 \<le> k \<longrightarrow> c1 + 1 < int (length (index g))"
    by blast
  from Cons.IH [OF rest step(2) step(5) step(6)] step(3,7,8)
  obtain bs d2 g2 c2 where run: "updateFilterAll inds d1 = Inr (bs, d2)" "dfilter d2 = Some g2"
      "index g2 = index g1" "colors g2 = colors g1" "curFiltInd g2 = Some c2" "0 \<le> c2"
      "c2 \<le> int (length (index g1)) - 1"
      "\<forall>k. nextInd g2 = Some k \<and> 0 \<le> k \<longrightarrow> c2 + 1 < int (length (index g1))"
    by auto
  from step run show ?case
    by simp
qed

lemma last_segment_stays:
  assumes "dfilter d = Some g" "curFiltInd g = Some c" "c = int (length (index g)) - 1"
    and "\<forall>k. nextInd g = Some k \<and> 0 \<le> k \<longrightarrow> c + 1 < int (length (index g))"
    and "0 \<le> i"
  shows "updateFilter i d = Inr (False, d)"
proof -
  from assms(3-5) have "Some i \<noteq> nextInd g"
    by (metis less_irrefl diff_add_cancel)
  with assms(1) show ?thesis
    by (simp add: updateFilter_def)
qed

text \<open>
  On the last segment \<open>nextInd\<close> is the number \<open>-1\<close>. A filter with the single
  boundary 0 is on its last segment after \<open>resetBounds\<close>; \<open>updateFilter(-1)\<close>
  then returns true and moves the cursor to 1, where \<open>getColor\<close> finds no color.
\<close>

theorem updateFilter_sentinel_counterexample:
  "map_sum id (\<lambda>r. (fst r, map_option curFiltInd (dfilter (snd r)), getColor (snd r)))
     (updateFilter (- 1)
        (resetBounds
           (Data [0, 1] [YNum 0, YNum 1]
              (Some \<lparr> opt_plotType = None,
                      opt_filter = Some \<lparr> index = [0], colors = [''red''],
                                           curFiltInd = None, nextInd = None \<rparr> \<rparr>))))
   = Inr (True, Some (Some 1), UndefinedColor)"
  by (simp add: series_eval)

text \<open>
  C10, as the code has it. Take a series whose filter has \<open>n \<ge> 1\<close> boundary
  indices and \<open>n\<close> colors, reset its cursor with \<open>resetBounds\<close> or \<open>setBounds\<close>,
  and call \<open>updateFilter\<close> with any sequence of non-negative indices. No call
  fails, \<open>curFiltInd\<close> ends between \<open>0\<close> and \<open>n - 1\<close>, \<open>getColor\<close> returns the
  element of \<open>colors\<close> at that position, and once the cursor is on the last
  segment every further call with a non-negative index returns false and
  changes nothing. The sequence is arbitrary, so the same holds after each of
  its prefixes.
\<close>

theorem filter_cursor_in_range:
  assumes flt: "dfilter d = Some f" and ne: "index f \<noteq> []"
    and cols: "length (colors f) = length (index f)"
    and inds: "list_all (\<lambda>i. 0 \<le> i) inds"
    and start: "d0 = resetBounds d \<or> d0 = setBounds a b d"
  shows "\<exists>bs d1 g c. updateFilterAll inds d0 = Inr (bs, d1)
           \<and> dfilter d1 = Some g \<and> curFiltInd g = Some c
           \<and> 0 \<le> c \<and> c \<le> int (length (index f)) - 1
           \<and> getColor d1 = Color (colors f ! nat c)
           \<and> (c = int (length (index f)) - 1 \<longrightarrow>
                (\<forall>i. 0 \<le> i \<longrightarrow> updateFilter i d1 = Inr (False, d1)))"
proof -
  from start resetBounds_cursor [OF flt ne] setBounds_cursor [OF flt ne, of a b]
  obtain g0 c0 where init: "dfilter d0 = Some g0" "index g0 = index f" "colors g0 = colors f"
      "curFiltInd g0 = Some c0" "0 \<le> c0" "c0 \<le> int (length (index g0)) - 1"
      "\<forall>k. nextInd g0 = Some k \<and> 0 \<le> k \<longrightarrow> c0 + 1 < int (length (index g0))"
    by auto
  from updateFilterAll_cursor [OF inds init(1,4,5,6,7)] init(2,3)
  obtain bs d1 g c where run: "updateFilterAll inds d0 = Inr (bs, d1)" "dfilter d1 = Some g"
      "index g = index f" "colors g = colors f" "curFiltInd g = Some c" "0 \<le> c"
      "c \<le> int (length (index f)) - 1"
      "\<forall>k. nextInd g = Some k \<and> 0 \<le> k \<longrightarrow> c + 1 < int (length (index g))"
    by auto
  from run(2,4,5,6,7) cols have col: "getColor d1 = Color (colors f ! nat c)"
    by (simp add: getColor_def jsIndexKey_def jsIndex_def)
  have stay: "updateFilter i d1 = Inr (False, d1)"
    if "c = int (length (index f)) - 1" "0 \<le> i" for i
    using last_segment_stays [OF run(2,5) _ run(8) that(2)] that(1) run(3) by simp
  from run(1,2,5,6,7) col stay show ?thesis
    by blast
qed

theorem filter_cursor_in_range_witness:
  "dfilter exampleSeries = Some exampleFilter
   \<and> index exampleFilter \<noteq> []
   \<and> length (colors exampleFilter) = length (index exampleFilter)
   \<and> list_all (\<lambda>i. 0 \<le> i) [1, 2, 3, 4 :: int]
   \<and> (\<exists>bs d1 g c. updateFilterAll [1, 2, 3, 4] (resetBounds exampleSeries) = Inr (bs, d1)
          \<and> dfilter d1 = Some g \<and> curFiltInd g = Some c
          \<and> 0 \<le> c \<and> c \<le> 2
          \<and> getColor d1 = Color ([''red'', ''green'', ''blue''] ! nat c))"
proof -
  have pre: "dfilter exampleSeries = Some exampleFilter"
    by (simp add: Data_def)
  have "\<exists>bs d1 g c. updateFilterAll [1, 2, 3, 4] (resetBounds exampleSeries) = Inr (bs, d1)
          \<and> dfilter d1 = Some g \<and> curFiltInd g = Some c
          \<and> 0 \<le> c \<and> c \<le> int (length (index exampleFilter)) - 1
          \<and> getColor d1 = Color (colors exampleFilter ! nat c)
          \<and> (c = int (length (index exampleFilter)) - 1 \<longrightarrow>
               (\<forall>i. 0 \<le> i \<longrightarrow> updateFilter i d1 = Inr (False, d1)))"
    by (rule filter_cursor_in_range [OF pre, where a = 0 and b = 0]) simp_all
  then obtain bs d1 g c
    where "updateFilterAll [1, 2, 3, 4] (resetBounds exampleSeries) = Inr (bs, d1)"
      "dfilter d1 = Some g" "curFiltInd g = Some c" "0 \<le> c"
      "c \<le> int (length (index exampleFilter)) - 1"
      "getColor d1 = Color (colors exampleFilter ! nat c)"
    by blast
  then have "\<exists>bs d1 g c. updateFilterAll [1, 2, 3, 4] (resetBounds exampleSeries) = Inr (bs, d1)
          \<and> dfilter d1 = Some g \<and> curFiltInd g = Some c
          \<and> 0 \<le> c \<and> c \<le> 2
          \<and> getColor d1 = Color ([''red'', ''green'', ''blue''] ! nat c)"
    by (intro exI [of _ bs] exI [of _ d1] exI [of _ g] exI [of _ c]) simp
  with pre show ?thesis by simp
qed

section \<open>Properties of the plot\<close>

subsection \<open>The bounds check of \<open>renderData\<close>\<close>

lemmas jsnum_eval =
  jsGt_def jsLt_def jsLess_def toNumber_def ofRead_def ofNullable_def jsIndex_def
  jsIndexKey_def

text \<open>
  With both x bounds pinned, a series with points is left out exactly when its
  first x value is beyond the upper bound or its last x value is before the
  lower bound. With no x bound pinned, the two \<open>null\<close> bounds compare as \<open>0\<close>:
  the series is left out exactly when its first x value is above \<open>0\<close> or its
  last x value is below \<open>0\<close>.
\<close>

lemma outsideZoom_pinned:
  assumes "zoom_xMin p = Some lo" "zoom_xMax p = Some hi" "x_vals d \<noteq> []"
  shows "outsideZoom p d = (hi < hd (x_vals d) \<or> last (x_vals d) < lo)"
  using assms
  by (cases "x_vals d") (auto simp: outsideZoom_def jsnum_eval last_conv_nth hd_conv_nth)

lemma outsideZoom_fitted:
  assumes "zoom_xMin p = None" "zoom_xMax p = None" "x_vals d \<noteq> []"
  shows "outsideZoom p d = (0 < hd (x_vals d) \<or> last (x_vals d) < 0)"
  using assms
  by (cases "x_vals d") (auto simp: outsideZoom_def jsnum_eval last_conv_nth hd_conv_nth)

text \<open>
  C2. With no pinned zoom the claim has every added series drawn. Take three
  series with the x values -1, 0, 5, then 1, 2, 3, then 0, 1, on a plot after
  \<open>clearZoom\<close>. The pass fits the x range from -1 to 5, which holds all three
  series. The code draws the first and the third and leaves out the second,
  whose x values are all positive: the skip does not end the pass, but the
  second series is inside the visible range and is not drawn.
\<close>

theorem renderData_fitted_skips_series:
  "preprocess_xRange
     (clearZoom (p\<lparr> plot_data := [Data [- 1, 0, 5] [YNum 1, YNum 2, YNum 3] None,
                                    Data [1, 2, 3] [YNum 1, YNum 2, YNum 3] None,
                                    Data [0, 1] [YNum 1, YNum 2] None] \<rparr>))
   = Inr (Num (- 1), Num 5,
          [resetBounds (Data [- 1, 0, 5] [YNum 1, YNum 2, YNum 3] None),
           resetBounds (Data [1, 2, 3] [YNum 1, YNum 2, YNum 3] None),
           resetBounds (Data [0, 1] [YNum 1, YNum 2] None)])
   \<and> renderData
       (clearZoom (p\<lparr> plot_data :=
          [resetBounds (Data [- 1, 0, 5] [YNum 1, YNum 2, YNum 3] None),
           resetBounds (Data [1, 2, 3] [YNum 1, YNum 2, YNum 3] None),
           resetBounds (Data [0, 1] [YNum 1, YNum 2] None)] \<rparr>))
     = [Drawn 1, Skipped, Drawn 1]"
  by (simp add: preprocess_xRange_def this_startInd_def this_stopInd_def
        renderData_def clearZoom_def outsideZoom_def Data_def resetBounds_def
        lenData_def jsnum_eval Let_def)

subsection \<open>The fitted x range of \<open>preprocess\<close>\<close>

lemmas xRange_eval =
  preprocess_xRange_def clearZoom_def resetBounds_def Data_def this_startInd_def
  this_stopInd_def jsnum_eval Let_def

text \<open>
  When the first series already spans the others, the fitted range is that of
  the first series.
\<close>

lemma preprocess_xRange_first_spans:
  "preprocess_xRange
     (clearZoom (p\<lparr> plot_data := [Data [0, 3] [YNum 0, YNum 0] None,
                                    Data [1, 2] [YNum 0, YNum 0] None] \<rparr>))
   = Inr (Num 0, Num 3,
          [resetBounds (Data [0, 3] [YNum 0, YNum 0] None),
           resetBounds (Data [1, 2] [YNum 0, YNum 0] None)])"
  by (simp add: xRange_eval)

text \<open>
  C3. With no pinned zoom and the two series of x values \<open>[1, 2]\<close> and
  \<open>[0, 3]\<close>, the claim has the x range from 0 to 3. In the code the second
  series starts before and ends after the first, both comparisons succeed, and
  both assignments read \<open>data.x[this.startInd]\<close> and \<open>data.x[this.stopInd]\<close> with
  \<open>this\<close> the plot: \<open>xMin\<close> and \<open>xMax\<close> become \<open>undefined\<close>.
\<close>

theorem preprocess_xRange_later_series_undefined:
  "preprocess_xRange
     (clearZoom (p\<lparr> plot_data := [Data [1, 2] [YNum 0, YNum 0] None,
                                    Data [0, 3] [YNum 0, YNum 0] None] \<rparr>))
   = Inr (Undefined, Undefined,
          [resetBounds (Data [1, 2] [YNum 0, YNum 0] None),
           resetBounds (Data [0, 3] [YNum 0, YNum 0] None)])"
  by (simp add: xRange_eval)

subsection \<open>Ticks\<close>

lemma floor_log10_100: "\<lfloor>ln (100::real) / ln 10\<rfloor> = 2"
proof -
  have "ln (100::real) = ln (10 ^ 2)" by simp
  also have "\<dots> = 2 * ln 10" by (subst ln_realpow) simp_all
  finally have "ln (100::real) / ln 10 = 2" by simp
  then show ?thesis by simp
qed

lemma floor_log10_97: "\<lfloor>ln (97::real) / ln 10\<rfloor> = 1"
proof -
  have pos: "0 < ln (10::real)" by simp
  have "ln (10::real) \<le> ln 97" by simp
  then have lo: "1 \<le> ln (97::real) / ln 10" using pos by (simp add: le_divide_eq)
  have "ln (97::real) < ln (10 ^ 2)" by (subst ln_less_cancel_iff) simp_all
  also have "\<dots> = 2 * ln 10" by (subst ln_realpow) simp_all
  finally have hi: "ln (97::real) / ln 10 < 2" using pos by (simp add: divide_less_eq)
  from lo hi show ?thesis by linarith
qed

lemma multLoop_0_100: "multLoop 40 100 0 100 400 [1 / 2, 1, 2, 5] (0, 0, 0) = (50, 0, 2)"
  by (simp add: Let_def)

lemma multLoop_0_97: "multLoop 40 10 0 97 400 [1 / 2, 1, 2, 5] (0, 0, 0) = (20, 0, 5)"
  by (simp add: Let_def)

lemma upt_0_2: "[0 ..< 2] = [0, Suc 0]"
  by (simp add: upt_conv_Cons)

lemma upt_0_5: "[0 ..< 5] = [0, 1, 2, 3, 4]"
  by (simp add: upt_conv_Cons)

text \<open>
  The example of the specification: from 0 to 97 on 400 pixels the step is 20
  and the ticks are 0, 20, 40, 60, 80.
\<close>

lemma getTicks_0_97:
  "getTicks (p\<lparr> minTickPixels := 40 \<rparr>) 0 97 400 = [0, 20, 40, 60, 80]"
  by (simp add: getTicks_def floor_log10_97 multLoop_0_97 upt_0_5 del: multLoop.simps)

text \<open>
  C5. From 0 to 100 on 400 pixels, with at least 40 pixels between ticks, the
  accepted step is 50, and the claim has every tick of that grid within the
  range, both ends included: 0, 50, 100. The tick loop of the code stops
  before the upper end of the grid, and the result is 0, 50.
\<close>

theorem getTicks_omits_upper_end:
  "getTicks (p\<lparr> minTickPixels := 40 \<rparr>) 0 100 400 = [0, 50]"
  by (simp add: getTicks_def floor_log10_100 multLoop_0_100 upt_0_2 del: multLoop.simps)

subsection \<open>Pixel and value coordinates\<close>

text \<open>
  C7. For every plot whose scale factor is not zero and every value \<open>v\<close>,
  mapping \<open>v\<close> to its canvas position and back gives \<open>v\<close> again, on the x axis
  and on the y axis, in exact arithmetic.
\<close>

theorem pixel_value_roundtrip:
  "(xScale p \<noteq> 0 \<longrightarrow> getXPixelPos p (getXCanvasPos p v) = v)
 \<and> (yScale p \<noteq> 0 \<longrightarrow> getYPixelPos p (getYCanvasPos p v) = v)"
  by (simp add: getXPixelPos_def getXCanvasPos_def getYPixelPos_def getYCanvasPos_def)

theorem pixel_value_roundtrip_witness:
  "xScale examplePlot \<noteq> 0
   \<and> getXPixelPos examplePlot (getXCanvasPos examplePlot 7) = 7
   \<and> yScale examplePlot \<noteq> 0
   \<and> getYPixelPos examplePlot (getYCanvasPos examplePlot 7) = 7"
  using pixel_value_roundtrip [of examplePlot 7] by simp

subsection \<open>The zoom gesture\<close>

text \<open>
  A drag from (50, 50) straight to the right, to (120, 50): no axis is locked
  before the move, the vertical distance is 0, and the move locks the x axis.
\<close>

theorem onmousemove_horizontal_counterexample:
  "zooming (onmousedown 50 50 examplePlot)
   \<and> \<not> xZooming (onmousedown 50 50 examplePlot)
   \<and> \<not> yZooming (onmousedown 50 50 examplePlot)
   \<and> \<bar>50 - yZoomStart (onmousedown 50 50 examplePlot)\<bar> = 0
   \<and> xZooming (fst (onmousemove 120 50 (onmousedown 50 50 examplePlot)))"
  by (simp add: onmousemove_def onmousedown_def Let_def)

text \<open>
  C8, as the code has it. While a zoom drag is in progress and no axis is
  locked, a pointer move locks the x axis exactly when the horizontal distance
  from the anchor is strictly larger than the vertical one and exceeds one
  pixel, and the y axis exactly when the vertical distance is strictly larger
  than the horizontal one and exceeds one pixel. Only the larger distance has
  to exceed the threshold.
\<close>

theorem onmousemove_locks_axis:
  assumes "zooming p" "\<not> xZooming p" "\<not> yZooming p"
  shows "xZooming (fst (onmousemove ex ey p))
           = (\<bar>ex - xZoomStart p\<bar> > \<bar>ey - yZoomStart p\<bar> \<and> \<bar>ex - xZoomStart p\<bar> > 1)
       \<and> yZooming (fst (onmousemove ex ey p))
           = (\<bar>ey - yZoomStart p\<bar> > \<bar>ex - xZoomStart p\<bar> \<and> \<bar>ey - yZoomStart p\<bar> > 1)"
  using assms by (auto simp: onmousemove_def Let_def)

theorem onmousemove_locks_axis_witness:
  "zooming (onmousedown 50 50 examplePlot)
   \<and> \<not> xZooming (onmousedown 50 50 examplePlot)
   \<and> \<not> yZooming (onmousedown 50 50 examplePlot)
   \<and> xZooming (fst (onmousemove 120 50 (onmousedown 50 50 examplePlot)))
   \<and> \<not> yZooming (fst (onmousemove 120 50 (onmousedown 50 50 examplePlot)))
   \<and> \<not> xZooming (fst (onmousemove 51 50 (onmousedown 50 50 examplePlot)))"
  using onmousemove_locks_axis [of "onmousedown 50 50 examplePlot" 120 50]
    onmousemove_locks_axis [of "onmousedown 50 50 examplePlot" 51 50]
  by (simp add: onmousedown_def)

end
